theory Spec2Isabelle
  imports Complex_Main "HOL-Library.Sublist"
begin

section \<open>The Amadeus gateway client (src/lib/api/amadeus.ts)\<close>

text \<open>
  Times are the millisecond readings of \<^verbatim>\<open>Date.now()\<close>.  The client object is a record
  of its three mutable fields; every method takes the client and returns the updated one.
\<close>

type_synonym time = int

record CachedToken =
  token :: string
  expiresAt :: time

record RateLimitInfo =
  requestCount :: nat
  resetTime :: time

subsection \<open>Configuration constants of the class\<close>

definition TOKEN_BUFFER :: int where
  "TOKEN_BUFFER = 60000"

definition CACHE_TTL :: int where
  "CACHE_TTL = 5 * 60 * 1000"

definition RATE_LIMIT :: nat where
  "RATE_LIMIT = 30"

definition RATE_LIMIT_WINDOW :: int where
  "RATE_LIMIT_WINDOW = 60 * 1000"

definition MAX_RETRIES :: nat where
  "MAX_RETRIES = 3"

subsection \<open>checkRateLimit\<close>

text \<open>
  The rate-limit table alone; the full client record below carries it as a field.
  \<^verbatim>\<open>info\<close> is either the object stored in the map or a new object.  The reset in the
  first \<^verbatim>\<open>if\<close> mutates that object, so when it came from the map the reset is visible in
  the map even on the path that returns \<^verbatim>\<open>false\<close> without calling \<^verbatim>\<open>set\<close>.
\<close>

definition checkRateLimit ::
  "time \<Rightarrow> string \<Rightarrow> (string \<rightharpoonup> RateLimitInfo) \<Rightarrow> bool \<times> (string \<rightharpoonup> RateLimitInfo)" where
  "checkRateLimit now key m =
     (let stored = m key;
          info0 = (case stored of
                     Some i \<Rightarrow> i
                   | None \<Rightarrow> \<lparr>requestCount = 0, resetTime = now + RATE_LIMIT_WINDOW\<rparr>);
          info = (if now \<ge> resetTime info0
                  then info0\<lparr>requestCount := 0, resetTime := now + RATE_LIMIT_WINDOW\<rparr>
                  else info0)
      in if requestCount info \<ge> RATE_LIMIT
         then (False, if stored = None then m else m(key \<mapsto> info))
         else (True, m(key \<mapsto> info\<lparr>requestCount := requestCount info + 1\<rparr>)))"

text \<open>Consecutive calls for one key at the given clock readings, results in call order.\<close>

fun checkRateLimit_calls ::
  "string \<Rightarrow> time list \<Rightarrow> (string \<rightharpoonup> RateLimitInfo) \<Rightarrow> bool list \<times> (string \<rightharpoonup> RateLimitInfo)" where
  "checkRateLimit_calls key [] m = ([], m)"
| "checkRateLimit_calls key (t # ts) m =
     (case checkRateLimit t key m of
        (ok, m1) \<Rightarrow> (case checkRateLimit_calls key ts m1 of (oks, m2) \<Rightarrow> (ok # oks, m2)))"

subsection \<open>Strings and JSON values\<close>

text \<open>
  Strings are lists of 8-bit characters and stand for ASCII JavaScript strings.  An
  \<^verbatim>\<open>Error\<close> is represented by its message, the only part of it the code reads.

  A parsed JSON value.  A number is held as its \<^verbatim>\<open>String()\<close> rendering: the
  code modelled here only tests numbers for truthiness and turns them into strings.
  An object is the list of its members in source order; on a duplicate key
  \<^verbatim>\<open>JSON.parse\<close> keeps the last one.  \<open>None\<close> of type \<open>json option\<close> is
  \<^verbatim>\<open>undefined\<close>.
\<close>

datatype json =
    JNull
  | JBool bool
  | JNum string
  | JStr string
  | JArr "json list"
  | JObj "(string \<times> json) list"

fun truthy :: "json \<Rightarrow> bool" where
  "truthy JNull = False"
| "truthy (JBool b) = b"
| "truthy (JNum n) = (n \<noteq> ''0'')"
| "truthy (JStr s) = (s \<noteq> [])"
| "truthy (JArr xs) = True"
| "truthy (JObj kvs) = True"

text \<open>
  Reading a named property (\<^verbatim>\<open>v.detail\<close>, \<^verbatim>\<open>v.data\<close>, ...) of a value that is
  neither \<^verbatim>\<open>null\<close> nor \<^verbatim>\<open>undefined\<close>.  None of the names the code reads is
  an own or inherited property of an array, string, number or boolean.
\<close>

fun get_prop :: "string \<Rightarrow> json \<Rightarrow> json option" where
  "get_prop k (JObj kvs) = map_of (rev kvs) k"
| "get_prop k v = None"

fun join_with :: "string \<Rightarrow> string list \<Rightarrow> string" where
  "join_with sep [] = []"
| "join_with sep [x] = x"
| "join_with sep (x # y # ys) = x @ sep @ join_with sep (y # ys)"

text \<open>\<^verbatim>\<open>String(v)\<close>; inside an array \<^verbatim>\<open>null\<close> joins as the empty string.\<close>

fun js_String :: "json \<Rightarrow> string" where
  "js_String JNull = ''null''"
| "js_String (JBool b) = (if b then ''true'' else ''false'')"
| "js_String (JNum n) = n"
| "js_String (JStr s) = s"
| "js_String (JArr xs) =
     join_with '','' (map (\<lambda>x. if x = JNull then [] else js_String x) xs)"
| "js_String (JObj kvs) = ''[object Object]''"

subsection \<open>formatError\<close>

definition formatError :: "json \<Rightarrow> string" where
  "formatError error =
     (let generic = ''An error occurred with the Amadeus API'';
          from_title_or_message = (\<lambda>err.
            (case get_prop ''title'' err of
               Some t \<Rightarrow>
                 if truthy t then js_String t
                 else (case get_prop ''message'' err of
                         Some m \<Rightarrow> if truthy m then js_String m else generic
                       | None \<Rightarrow> generic)
             | None \<Rightarrow>
                 (case get_prop ''message'' err of
                    Some m \<Rightarrow> if truthy m then js_String m else generic
                  | None \<Rightarrow> generic)))
      in case error of
           JObj kvs \<Rightarrow>
             (case get_prop ''errors'' error of
                Some (JArr (firstError # others)) \<Rightarrow>
                  (case (if firstError = JNull then None else get_prop ''detail'' firstError) of
                     Some d \<Rightarrow> if truthy d then js_String d else from_title_or_message error
                   | None \<Rightarrow> from_title_or_message error)
              | _ \<Rightarrow> from_title_or_message error)
         | JArr xs \<Rightarrow> from_title_or_message error
         | _ \<Rightarrow> generic)"

subsection \<open>The environment: clock and network\<close>

text \<open>
  The body of an HTTP response as \<^verbatim>\<open>response.json()\<close> sees it: absent, present but
  not JSON, or present and parsing to a value.
\<close>

datatype 'a body = NoBody | Malformed | Parsed 'a

record response =
  status :: nat
  body :: "json body"

definition ok :: "response \<Rightarrow> bool" where
  "ok r = (200 \<le> status r \<and> status r \<le> 299)"

definition syntax_error_message :: string where
  "syntax_error_message = ''Unexpected end of JSON input''"

definition body_unusable_message :: string where
  "body_unusable_message = ''Body is unusable: Body has already been read''"

definition abort_message :: string where
  "abort_message = ''This operation was aborted''"

text \<open>
  The first \<^verbatim>\<open>response.json()\<close> on a response: rejects with a SyntaxError unless
  the body parses.
\<close>

definition json_read :: "'a body \<Rightarrow> string + 'a" where
  "json_read b = (case b of Parsed v \<Rightarrow> Inr v | _ \<Rightarrow> Inl syntax_error_message)"

text \<open>
  A second \<^verbatim>\<open>response.json()\<close> on the same response.  The first call has consumed
  the body stream, so the call rejects with a TypeError; a response without a body has no
  stream to consume and fails to parse again.
\<close>

definition json_reread :: "'a body \<Rightarrow> string + 'a" where
  "json_reread b = (case b of NoBody \<Rightarrow> Inl syntax_error_message | _ \<Rightarrow> Inl body_unusable_message)"

text \<open>
  What one call of the identity endpoint gives: a transport failure with its message, a
  non-2xx response (with the \<^verbatim>\<open>JSON.stringify\<close> text of its parsed body,
  \<^verbatim>\<open>{}\<close> when it does not parse), or a 2xx response whose body, when it parses, is a
  grant \<^verbatim>\<open>{access_token, expires_in}\<close> of the types the client assumes.
\<close>

datatype auth_reply =
    AuthRejected string
  | AuthNotOk nat string
  | AuthOk "(string \<times> int) body"

datatype api_reply = Rejected string | Replied response

text \<open>
  The network as the client meets it: the reply to the n-th call of each endpoint family,
  paired with the milliseconds it takes to arrive.
\<close>

record env =
  auth_net :: "nat \<Rightarrow> nat \<times> auth_reply"
  api_net :: "nat \<Rightarrow> nat \<times> api_reply"

text \<open>
  The world outside the client: the reading of \<^verbatim>\<open>Date.now()\<close> and the number of
  calls made so far to each endpoint family.  Time passes while a fetch is awaited and
  while a back-off timer runs.
\<close>

record world =
  clock :: time
  auth_calls :: nat
  api_calls :: nat

definition sleep :: "int \<Rightarrow> world \<Rightarrow> world" where
  "sleep ms w = w\<lparr>clock := clock w + ms\<rparr>"

definition fetch_token :: "env \<Rightarrow> world \<Rightarrow> auth_reply \<times> world" where
  "fetch_token e w =
     (case auth_net e (auth_calls w) of
        (elapsed, reply) \<Rightarrow>
          (reply, w\<lparr>clock := clock w + int elapsed, auth_calls := Suc (auth_calls w)\<rparr>))"

definition REQUEST_TIMEOUT :: nat where
  "REQUEST_TIMEOUT = 30000"

text \<open>
  fetchWithTimeout: the abort timer fires after \<open>timeout\<close> milliseconds, and the fetch
  then rejects; a reply that needs at least that long loses against the timer.
\<close>

definition fetchWithTimeout :: "env \<Rightarrow> nat \<Rightarrow> world \<Rightarrow> api_reply \<times> world" where
  "fetchWithTimeout e timeout w =
     (case api_net e (api_calls w) of
        (elapsed, reply) \<Rightarrow>
          if timeout \<le> elapsed
          then (Rejected abort_message,
                w\<lparr>clock := clock w + int timeout, api_calls := Suc (api_calls w)\<rparr>)
          else (reply,
                w\<lparr>clock := clock w + int elapsed, api_calls := Suc (api_calls w)\<rparr>))"

subsection \<open>The client object\<close>

record cache_entry =
  data :: json
  timestamp :: time

record AmadeusClient =
  cachedToken :: "CachedToken option"
  rateLimitMap :: "string \<rightharpoonup> RateLimitInfo"
  requestCache :: "string \<rightharpoonup> cache_entry"

type_synonym state = "world \<times> AmadeusClient"

subsection \<open>getToken\<close>

function show_nat :: "nat \<Rightarrow> string" where
  "show_nat n =
     (if n < 10 then [char_of (48 + n)]
      else show_nat (n div 10) @ [char_of (48 + n mod 10)])"
  by pat_completeness auto
termination
  by (relation "measure id") auto

declare show_nat.simps [simp del]

definition getToken :: "env \<Rightarrow> state \<Rightarrow> (string + string) \<times> state" where
  "getToken e s =
     (case s of (w, c) \<Rightarrow>
        (case (case cachedToken c of
                 Some t \<Rightarrow> if clock w < expiresAt t - TOKEN_BUFFER then Some (token t) else None
               | None \<Rightarrow> None) of
           Some tok \<Rightarrow> (Inr tok, w, c)
         | None \<Rightarrow>
             (case fetch_token e w of
                (AuthRejected msg, w1) \<Rightarrow> (Inl (''Amadeus auth error: '' @ msg), w1, c)
              | (AuthNotOk st text, w1) \<Rightarrow>
                  (Inl (''Amadeus auth error: '' @
                        (''Authentication failed: '' @ show_nat st @ '' '' @ text)), w1, c)
              | (AuthOk b, w1) \<Rightarrow>
                  (case json_read b of
                     Inl msg \<Rightarrow> (Inl (''Amadeus auth error: '' @ msg), w1, c)
                   | Inr (access_token, expires_in) \<Rightarrow>
                       (Inr access_token, w1,
                        c\<lparr>cachedToken :=
                            Some \<lparr>token = access_token,
                                  expiresAt = clock w1 + expires_in * 1000\<rparr>\<rparr>)))))"

subsection \<open>request\<close>

text \<open>
  Every call site of \<^verbatim>\<open>request\<close> in the class passes the endpoint only, so
  \<^verbatim>\<open>options.body\<close> is absent and the cache key is the endpoint followed by
  \<^verbatim>\<open>JSON.stringify("")\<close>.  \<^verbatim>\<open>options.retries\<close> and \<^verbatim>\<open>options.timeout\<close>
  fall back to the class constants when absent or zero.
\<close>

record RequestOptions =
  retries :: "nat option"
  timeout :: "nat option"

definition no_options :: RequestOptions where
  "no_options = \<lparr>retries = None, timeout = None\<rparr>"

definition or_default :: "nat option \<Rightarrow> nat \<Rightarrow> nat" where
  "or_default v d = (case v of Some n \<Rightarrow> if n = 0 then d else n | None \<Rightarrow> d)"

datatype attempt_result = Returned json | Thrown string | Continue string

text \<open>The \<^verbatim>\<open>catch\<close> block of one loop iteration.\<close>

definition catch_block :: "nat \<Rightarrow> nat \<Rightarrow> string \<Rightarrow> state \<Rightarrow> attempt_result \<times> state" where
  "catch_block n attempt msg s =
     (case s of (w, c) \<Rightarrow>
        if int attempt = int n - 1 then (Thrown msg, w, c)
        else (Continue msg, sleep (2 ^ attempt * 1000) w, c))"

definition cache_store :: "string \<Rightarrow> json \<Rightarrow> state \<Rightarrow> attempt_result \<times> state" where
  "cache_store cacheKey d s =
     (case s of (w, c) \<Rightarrow>
        (Returned d, w,
         c\<lparr>requestCache := (requestCache c)(cacheKey \<mapsto> \<lparr>data = d, timestamp = clock w\<rparr>)\<rparr>))"

text \<open>
  One iteration of the retry loop: the \<^verbatim>\<open>try\<close> block followed, when it throws, by
  the \<^verbatim>\<open>catch\<close> block.  \<open>Continue msg\<close> is the next iteration with
  \<^verbatim>\<open>lastError\<close> set to an error with that message.
\<close>

definition attempt_body ::
  "env \<Rightarrow> nat \<Rightarrow> nat \<Rightarrow> string \<Rightarrow> nat \<Rightarrow> state \<Rightarrow> attempt_result \<times> state" where
  "attempt_body e tmo n cacheKey attempt s =
     (case s of (w, c) \<Rightarrow>
        (case fetchWithTimeout e tmo w of
           (Rejected msg, w1) \<Rightarrow> catch_block n attempt msg (w1, c)
         | (Replied r, w1) \<Rightarrow>
             if \<not> ok r then
               (let error = (case json_read (body r) of Inr j \<Rightarrow> j | Inl x \<Rightarrow> JObj []);
                    errorMessage = formatError error
                in if status r \<noteq> 429 \<and> status r < 500
                   then catch_block n attempt errorMessage (w1, c)
                   else if int attempt < int n - 1
                   then (Continue errorMessage, sleep (2 ^ attempt * 1000) w1, c)
                   else (case json_reread (body r) of
                           Inl msg \<Rightarrow> catch_block n attempt msg (w1, c)
                         | Inr d \<Rightarrow> cache_store cacheKey d (w1, c)))
             else (case json_read (body r) of
                     Inl msg \<Rightarrow> catch_block n attempt msg (w1, c)
                   | Inr d \<Rightarrow> cache_store cacheKey d (w1, c))))"

function attempts ::
  "env \<Rightarrow> nat \<Rightarrow> nat \<Rightarrow> string \<Rightarrow> nat \<Rightarrow> string option \<Rightarrow> state \<Rightarrow> (string + json) \<times> state" where
  "attempts e tmo n cacheKey attempt lastError s =
     (if attempt < n then
        (case attempt_body e tmo n cacheKey attempt s of
           (Returned d, s1) \<Rightarrow> (Inr d, s1)
         | (Thrown msg, s1) \<Rightarrow> (Inl msg, s1)
         | (Continue msg, s1) \<Rightarrow> attempts e tmo n cacheKey (Suc attempt) (Some msg) s1)
      else (Inl (case lastError of
                   Some msg \<Rightarrow> msg
                 | None \<Rightarrow> ''Request failed after retries''), s))"
  by pat_completeness auto
termination
  by (relation "measure (\<lambda>(e, tmo, n, cacheKey, attempt, lastError, s). n - attempt)") auto

declare attempts.simps [simp del]

definition rate_limit_message :: string where
  "rate_limit_message = ''Rate limit exceeded. Please wait before making another request.''"

text \<open>The cache key: the endpoint followed by the two quote characters of \<^verbatim>\<open>JSON.stringify("")\<close>.\<close>

definition cache_key :: "string \<Rightarrow> string" where
  "cache_key endpoint = endpoint @ [CHR 0x22, CHR 0x22]"

text \<open>The cached payload when an entry exists and is younger than \<open>CACHE_TTL\<close> at \<open>now\<close>.\<close>

definition cache_lookup :: "AmadeusClient \<Rightarrow> string \<Rightarrow> time \<Rightarrow> json option" where
  "cache_lookup c cacheKey now =
     (case requestCache c cacheKey of
        Some cached \<Rightarrow> if now - timestamp cached < CACHE_TTL then Some (data cached) else None
      | None \<Rightarrow> None)"

definition request :: "env \<Rightarrow> string \<Rightarrow> RequestOptions \<Rightarrow> state \<Rightarrow> (string + json) \<times> state" where
  "request e endpoint options s =
     (case s of (w, c) \<Rightarrow>
        (let cacheKey = cache_key endpoint in
         case cache_lookup c cacheKey (clock w) of
           Some d \<Rightarrow> (Inr d, w, c)
         | None \<Rightarrow>
             (case checkRateLimit (clock w) ''global'' (rateLimitMap c) of
                (False, m) \<Rightarrow> (Inl rate_limit_message, w, c\<lparr>rateLimitMap := m\<rparr>)
              | (True, m) \<Rightarrow>
                  (case getToken e (w, c\<lparr>rateLimitMap := m\<rparr>) of
                     (Inl msg, s1) \<Rightarrow> (Inl msg, s1)
                   | (Inr tok, s1) \<Rightarrow>
                       attempts e (or_default (timeout options) REQUEST_TIMEOUT)
                         (or_default (retries options) MAX_RETRIES) cacheKey 0 None s1))))"

subsection \<open>getAirport and isValidAirport\<close>

definition hex_digit :: "nat \<Rightarrow> char" where
  "hex_digit n = (if n < 10 then char_of (48 + n) else char_of (55 + n))"

definition unreserved :: "char \<Rightarrow> bool" where
  "unreserved ch =
     (let n = (of_char ch :: nat)
      in (65 \<le> n \<and> n \<le> 90) \<or> (97 \<le> n \<and> n \<le> 122) \<or> (48 \<le> n \<and> n \<le> 57) \<or>
         ch \<in> set ''-_.!~*'' \<or> n = 39 \<or> ch \<in> set ''()'')"

text \<open>encodeURIComponent on ASCII text: everything but the unreserved marks is percent-encoded.\<close>

definition encodeURIComponent :: "string \<Rightarrow> string" where
  "encodeURIComponent s =
     concat (map (\<lambda>ch. if unreserved ch then [ch]
                        else [CHR ''%'', hex_digit (of_char ch div 16), hex_digit (of_char ch mod 16)]) s)"

record Airport =
  iataCode :: "json option"
  name :: "json option"
  city :: json
  countryCode :: json

text \<open>\<^verbatim>\<open>v?.[0]\<close>: the element or property named 0, \<^verbatim>\<open>undefined\<close> when there is none.\<close>

definition first_element :: "json option \<Rightarrow> json option" where
  "first_element v =
     (case v of
        Some (JArr (x # xs)) \<Rightarrow> Some x
      | Some (JObj kvs) \<Rightarrow> get_prop ''0'' (JObj kvs)
      | Some (JStr (ch # cs)) \<Rightarrow> Some (JStr [ch])
      | _ \<Rightarrow> None)"

text \<open>\<^verbatim>\<open>v?.k\<close> and \<^verbatim>\<open>v || ""\<close>.\<close>

definition optional_prop :: "string \<Rightarrow> json option \<Rightarrow> json option" where
  "optional_prop k v = (case v of None \<Rightarrow> None | Some x \<Rightarrow> if x = JNull then None else get_prop k x)"

definition or_empty :: "json option \<Rightarrow> json" where
  "or_empty v = (case v of Some x \<Rightarrow> if truthy x then x else JStr [] | None \<Rightarrow> JStr [])"

text \<open>
  The whole body of getAirport sits in a \<^verbatim>\<open>try\<close> whose \<^verbatim>\<open>catch\<close> logs and
  returns \<^verbatim>\<open>null\<close>: a rejected request and the TypeError of reading
  \<^verbatim>\<open>.data\<close> of a \<^verbatim>\<open>null\<close> payload both end there.
\<close>

definition getAirport :: "env \<Rightarrow> string \<Rightarrow> state \<Rightarrow> Airport option \<times> state" where
  "getAirport e code s =
     (case request e (''/v1/reference-data/locations?subType=AIRPORT&code='' @
                      encodeURIComponent code) no_options s of
        (Inl msg, s1) \<Rightarrow> (None, s1)
      | (Inr response, s1) \<Rightarrow>
          if response = JNull then (None, s1)
          else (case first_element (get_prop ''data'' response) of
                  None \<Rightarrow> (None, s1)
                | Some airport \<Rightarrow>
                    if \<not> truthy airport then (None, s1)
                    else (Some \<lparr>iataCode = get_prop ''iataCode'' airport,
                                name = get_prop ''name'' airport,
                                city = or_empty (optional_prop ''cityName''
                                                  (get_prop ''address'' airport)),
                                countryCode = or_empty (optional_prop ''countryCode''
                                                         (get_prop ''address'' airport))\<rparr>,
                          s1)))"

definition isValidAirport :: "env \<Rightarrow> string \<Rightarrow> state \<Rightarrow> bool \<times> state" where
  "isValidAirport e code s = (case getAirport e code s of (airport, s1) \<Rightarrow> (airport \<noteq> None, s1))"

section \<open>Flight utilities (src/lib/utils/flight-utils.ts)\<close>

subsection \<open>Numbers, dates and arrays\<close>

text \<open>
  A JavaScript number as the filters compare it: a finite value, an infinity or NaN.
  Every comparison with NaN is false.
\<close>

datatype number = NaN | NegInf | Fin rat | PosInf

fun js_le :: "number \<Rightarrow> number \<Rightarrow> bool" where
  "js_le NaN y = False"
| "js_le x NaN = False"
| "js_le NegInf y = True"
| "js_le x PosInf = True"
| "js_le (Fin a) (Fin b) = (a \<le> b)"
| "js_le x y = False"

fun js_lt :: "number \<Rightarrow> number \<Rightarrow> bool" where
  "js_lt NaN y = False"
| "js_lt x NaN = False"
| "js_lt x NegInf = False"
| "js_lt PosInf y = False"
| "js_lt (Fin a) (Fin b) = (a < b)"
| "js_lt x y = True"

text \<open>
  The platform's \<^verbatim>\<open>Date\<close>: for a timestamp string, the local hour of
  \<^verbatim>\<open>new Date(s).getHours()\<close> and the epoch milliseconds of
  \<^verbatim>\<open>new Date(s).getTime()\<close>; \<open>None\<close> is the NaN of an invalid date.
\<close>

record date_api =
  getHours :: "string \<Rightarrow> nat option"
  getTime :: "string \<Rightarrow> int option"

text \<open>
  Arrays are objects in a store: a reference names a cell holding the array's elements.
  \<^verbatim>\<open>[...xs]\<close> and \<^verbatim>\<open>xs.filter(p)\<close> allocate a new array;
  \<^verbatim>\<open>xs.sort(c)\<close> overwrites the cell of \<^verbatim>\<open>xs\<close>.
\<close>

type_synonym ref = nat

record 'a heap =
  cells :: "ref \<Rightarrow> 'a list"
  next_ref :: ref

definition new_array :: "'a list \<Rightarrow> 'a heap \<Rightarrow> ref \<times> 'a heap" where
  "new_array xs h = (next_ref h, h\<lparr>cells := (cells h)(next_ref h := xs), next_ref := Suc (next_ref h)\<rparr>)"

text \<open>\<^verbatim>\<open>xs.filter(p)\<close>.\<close>

definition array_filter :: "('a \<Rightarrow> bool) \<Rightarrow> ref \<Rightarrow> 'a heap \<Rightarrow> ref \<times> 'a heap" where
  "array_filter p xs h = new_array (filter p (cells h xs)) h"

subsection \<open>Flights\<close>

datatype Cabin = ECONOMY | PREMIUM_ECONOMY | BUSINESS | FIRST

record Endpoint =
  airport :: string
  time :: string
  terminal :: "string option"

text \<open>A segment, with the fields of the upstream record that identify and time it.\<close>

record FlightSegment =
  segment_id :: string
  segment_departure :: Endpoint
  segment_arrival :: Endpoint
  carrierCode :: string
  flight_number :: string
  segment_duration :: string
  numberOfStops :: nat

text \<open>
  A processed flight.  The price is a finite number; the raw upstream offer is carried
  along as an opaque value.
\<close>

record 'o ProcessedFlight =
  flight_id :: string
  departure :: Endpoint
  arrival :: Endpoint
  duration :: string
  stops :: nat
  airlines :: "string list"
  price :: rat
  currency :: string
  cabin :: Cabin
  bestAtTime :: "string option"
  departureDate :: string
  segments :: "FlightSegment list"
  rawOffer :: 'o

record TimeRange =
  range_start :: number
  range_end :: number

datatype SortKey = ByPrice | ByDuration | ByDeparture | ByArrival | ByStops

datatype SortOrder = Asc | Desc

text \<open>\<^verbatim>\<open>Partial<FilterState>\<close>: every field may be absent.\<close>

record FilterState =
  maxPrice :: "number option"
  minPrice :: "number option"
  selectedAirlines :: "string list option"
  departureTimeRange :: "TimeRange option"
  arrivalTimeRange :: "TimeRange option"
  maxStops :: "number option"
  maxDuration :: "number option"
  sortBy :: "SortKey option"
  sortOrder :: "SortOrder option"
  cabins :: "Cabin list option"

subsection \<open>durationToMinutes\<close>

definition is_digit :: "char \<Rightarrow> bool" where
  "is_digit ch = (48 \<le> (of_char ch :: nat) \<and> (of_char ch :: nat) \<le> 57)"

definition decimal :: "string \<Rightarrow> nat" where
  "decimal ds = foldl (\<lambda>acc ch. 10 * acc + (of_char ch - 48)) 0 ds"

text \<open>
  The unanchored pattern \<^verbatim>\<open>/PT(\d+H)?(\d+M)?/\<close> matches at the first occurrence of
  \<^verbatim>\<open>PT\<close>, since both groups are optional; \<open>after_PT\<close> is the text behind it.
\<close>

fun after_PT :: "string \<Rightarrow> string option" where
  "after_PT [] = None"
| "after_PT [ch] = None"
| "after_PT (ch # d # rest) =
     (if ch = CHR ''P'' \<and> d = CHR ''T'' then Some rest else after_PT (d # rest))"

text \<open>
  One optional group \<^verbatim>\<open>(\d+U)?\<close> at the head of the text: a non-empty run of digits
  followed by the unit letter.  Returns the number \<^verbatim>\<open>parseInt\<close> reads from the group
  (\<open>None\<close> when the group does not take part) and the text behind the group.
\<close>

definition unit_group :: "char \<Rightarrow> string \<Rightarrow> nat option \<times> string" where
  "unit_group u s =
     (let ds = takeWhile is_digit s; rest = dropWhile is_digit s
      in if ds \<noteq> [] \<and> rest \<noteq> [] \<and> hd rest = u then (Some (decimal ds), tl rest)
         else (None, s))"

definition durationToMinutes :: "string \<Rightarrow> nat" where
  "durationToMinutes d =
     (case after_PT d of
        None \<Rightarrow> 0
      | Some rest \<Rightarrow>
          (case unit_group CHR ''H'' rest of
             (h, rest1) \<Rightarrow>
               (case unit_group CHR ''M'' rest1 of
                  (m, rest2) \<Rightarrow>
                    (case h of Some x \<Rightarrow> x | None \<Rightarrow> 0) * 60 +
                    (case m of Some x \<Rightarrow> x | None \<Rightarrow> 0))))"

definition extractHour :: "date_api \<Rightarrow> string \<Rightarrow> number" where
  "extractHour d isoDateTime =
     (case getHours d isoDateTime of Some h \<Rightarrow> Fin (of_nat h) | None \<Rightarrow> NaN)"

subsection \<open>The filters\<close>

definition filterByPrice ::
  "ref \<Rightarrow> number \<Rightarrow> number \<Rightarrow> 'o ProcessedFlight heap \<Rightarrow> ref \<times> 'o ProcessedFlight heap" where
  "filterByPrice flights lo hi h =
     array_filter (\<lambda>flight. js_le lo (Fin (price flight)) \<and> js_le (Fin (price flight)) hi) flights h"

definition filterByStops ::
  "ref \<Rightarrow> number \<Rightarrow> 'o ProcessedFlight heap \<Rightarrow> ref \<times> 'o ProcessedFlight heap" where
  "filterByStops flights n h =
     array_filter (\<lambda>flight. js_le (Fin (of_nat (stops flight))) n) flights h"

definition filterByAirlines ::
  "ref \<Rightarrow> string list \<Rightarrow> 'o ProcessedFlight heap \<Rightarrow> ref \<times> 'o ProcessedFlight heap" where
  "filterByAirlines flights selected h =
     (if length selected = 0 then (flights, h)
      else array_filter (\<lambda>flight. \<exists>airline \<in> set (airlines flight). airline \<in> set selected) flights h)"

definition in_hour_range :: "number \<Rightarrow> number \<Rightarrow> number \<Rightarrow> bool" where
  "in_hour_range hour startHour endHour =
     (if js_le startHour endHour then js_le startHour hour \<and> js_lt hour endHour
      else js_le startHour hour \<or> js_lt hour endHour)"

definition filterByDepartureTime ::
  "date_api \<Rightarrow> ref \<Rightarrow> number \<Rightarrow> number \<Rightarrow> 'o ProcessedFlight heap \<Rightarrow> ref \<times> 'o ProcessedFlight heap" where
  "filterByDepartureTime d flights startHour endHour h =
     array_filter (\<lambda>flight. in_hour_range (extractHour d (time (departure flight))) startHour endHour)
       flights h"

definition filterByArrivalTime ::
  "date_api \<Rightarrow> ref \<Rightarrow> number \<Rightarrow> number \<Rightarrow> 'o ProcessedFlight heap \<Rightarrow> ref \<times> 'o ProcessedFlight heap" where
  "filterByArrivalTime d flights startHour endHour h =
     array_filter (\<lambda>flight. in_hour_range (extractHour d (time (arrival flight))) startHour endHour)
       flights h"

definition filterByCabin ::
  "ref \<Rightarrow> Cabin list \<Rightarrow> 'o ProcessedFlight heap \<Rightarrow> ref \<times> 'o ProcessedFlight heap" where
  "filterByCabin flights cs h =
     (if length cs = 0 then (flights, h)
      else array_filter (\<lambda>flight. cabin flight \<in> set cs) flights h)"

text \<open>\<^verbatim>\<open>flight.segments[0]?.duration || "PT0M"\<close>.\<close>

definition first_segment_duration :: "'o ProcessedFlight \<Rightarrow> string" where
  "first_segment_duration flight =
     (case segments flight of
        [] \<Rightarrow> ''PT0M''
      | seg # more_segments \<Rightarrow> if segment_duration seg = [] then ''PT0M'' else segment_duration seg)"

definition filterByDuration ::
  "ref \<Rightarrow> number \<Rightarrow> 'o ProcessedFlight heap \<Rightarrow> ref \<times> 'o ProcessedFlight heap" where
  "filterByDuration flights limit h =
     array_filter
       (\<lambda>flight. js_le (Fin (of_nat (durationToMinutes (first_segment_duration flight)))) limit)
       flights h"

subsection \<open>applyFilters\<close>

definition applyFilters ::
  "date_api \<Rightarrow> ref \<Rightarrow> FilterState \<Rightarrow> 'o ProcessedFlight heap \<Rightarrow> ref \<times> 'o ProcessedFlight heap" where
  "applyFilters d flights filters h =
     (let s = new_array (cells h flights) h;
          s = (case (minPrice filters, maxPrice filters) of
                 (Some lo, Some hi) \<Rightarrow> filterByPrice (fst s) lo hi (snd s)
               | _ \<Rightarrow> s);
          s = (case maxStops filters of
                 Some n \<Rightarrow> filterByStops (fst s) n (snd s)
               | None \<Rightarrow> s);
          s = (case selectedAirlines filters of
                 Some selected \<Rightarrow>
                   if length selected > 0 then filterByAirlines (fst s) selected (snd s) else s
               | None \<Rightarrow> s);
          s = (case departureTimeRange filters of
                 Some r \<Rightarrow> filterByDepartureTime d (fst s) (range_start r) (range_end r) (snd s)
               | None \<Rightarrow> s);
          s = (case arrivalTimeRange filters of
                 Some r \<Rightarrow> filterByArrivalTime d (fst s) (range_start r) (range_end r) (snd s)
               | None \<Rightarrow> s);
          s = (case maxDuration filters of
                 Some limit \<Rightarrow> filterByDuration (fst s) limit (snd s)
               | None \<Rightarrow> s);
          s = (case cabins filters of
                 Some cs \<Rightarrow> if length cs > 0 then filterByCabin (fst s) cs (snd s) else s
               | None \<Rightarrow> s)
      in s)"


text \<open>The filter state the page component starts from and resets to.\<close>

definition reset_filters :: FilterState where
  "reset_filters =
     \<lparr>maxPrice = Some (Fin 10000),
      minPrice = Some (Fin 0),
      selectedAirlines = Some [],
      departureTimeRange = Some \<lparr>range_start = Fin 0, range_end = Fin 24\<rparr>,
      arrivalTimeRange = Some \<lparr>range_start = Fin 0, range_end = Fin 24\<rparr>,
      maxStops = Some (Fin 2),
      maxDuration = Some (Fin 1440),
      sortBy = Some ByPrice,
      sortOrder = Some Asc,
      cabins = Some []\<rparr>"

subsection \<open>sortFlights\<close>

text \<open>
  \<^verbatim>\<open>Array.prototype.sort\<close> with a comparator is stable, and reads a NaN result as 0.
  For a consistent comparator its result is the stable ordering, computed here by
  insertion: an element goes in front of the first later element it does not exceed.
\<close>

fun insort_by :: "('a \<Rightarrow> 'a \<Rightarrow> rat) \<Rightarrow> 'a \<Rightarrow> 'a list \<Rightarrow> 'a list" where
  "insort_by c x [] = [x]"
| "insort_by c x (y # ys) = (if c x y \<le> 0 then x # y # ys else y # insort_by c x ys)"

definition array_sort :: "('a \<Rightarrow> 'a \<Rightarrow> rat) \<Rightarrow> ref \<Rightarrow> 'a heap \<Rightarrow> 'a heap" where
  "array_sort c xs h = h\<lparr>cells := (cells h)(xs := foldr (insort_by c) (cells h xs) [])\<rparr>"

text \<open>The comparator of sortFlights; a NaN difference of two timestamps counts as 0.\<close>

definition compare_flights ::
  "date_api \<Rightarrow> SortKey \<Rightarrow> rat \<Rightarrow> 'o ProcessedFlight \<Rightarrow> 'o ProcessedFlight \<Rightarrow> rat" where
  "compare_flights d key factor a b =
     (case key of
        ByPrice \<Rightarrow> (price a - price b) * factor
      | ByDuration \<Rightarrow>
          (of_nat (durationToMinutes (first_segment_duration a)) -
           of_nat (durationToMinutes (first_segment_duration b))) * factor
      | ByDeparture \<Rightarrow>
          (case (getTime d (time (departure a)), getTime d (time (departure b))) of
             (Some aTime, Some bTime) \<Rightarrow> of_int (aTime - bTime) * factor
           | _ \<Rightarrow> 0)
      | ByArrival \<Rightarrow>
          (case (getTime d (time (arrival a)), getTime d (time (arrival b))) of
             (Some aArrival, Some bArrival) \<Rightarrow> of_int (aArrival - bArrival) * factor
           | _ \<Rightarrow> 0)
      | ByStops \<Rightarrow> (of_nat (stops a) - of_nat (stops b)) * factor)"

text \<open>The two optional parameters default to \<^verbatim>\<open>"price"\<close> and \<^verbatim>\<open>"asc"\<close>.\<close>

definition sortFlights ::
  "date_api \<Rightarrow> ref \<Rightarrow> SortKey option \<Rightarrow> SortOrder option \<Rightarrow> 'o ProcessedFlight heap \<Rightarrow>
     ref \<times> 'o ProcessedFlight heap" where
  "sortFlights d flights sortKey direction h =
     (case new_array (cells h flights) h of
        (sorted_copy, h1) \<Rightarrow>
          (let key = (case sortKey of Some k \<Rightarrow> k | None \<Rightarrow> ByPrice);
               factor = (if (case direction of Some dir \<Rightarrow> dir | None \<Rightarrow> Asc) = Asc
                         then 1 else - 1)
           in (sorted_copy, array_sort (compare_flights d key factor) sorted_copy h1)))"

section \<open>Airport autocomplete scoring (the airports route)\<close>

subsection \<open>String helpers\<close>


definition toUpperCase :: "string \<Rightarrow> string" where
  "toUpperCase s =
     map (\<lambda>ch. if 97 \<le> (of_char ch :: nat) \<and> (of_char ch :: nat) \<le> 122
               then char_of ((of_char ch :: nat) - 32) else ch) s"

text \<open>\<^verbatim>\<open>haystack.startsWith(needle)\<close> and \<^verbatim>\<open>haystack.includes(needle)\<close>.\<close>

fun startsWith :: "'a list \<Rightarrow> 'a list \<Rightarrow> bool" where
  "startsWith haystack [] = True"
| "startsWith [] (n # ns) = False"
| "startsWith (h # hs) (n # ns) = (h = n \<and> startsWith hs ns)"

fun includes_str :: "'a list \<Rightarrow> 'a list \<Rightarrow> bool" where
  "includes_str [] needle = startsWith [] needle"
| "includes_str (h # hs) needle = (startsWith (h # hs) needle \<or> includes_str hs needle)"

subsection \<open>levenshteinDistance\<close>




subsection \<open>fuzzyScore\<close>


subsection \<open>The Levenshtein distance, as a specification\<close>

text \<open>
  The edit distance of two strings by its defining recurrence on their last characters:
  turning \<open>xs\<close> into \<open>ys\<close> costs one for each deletion, insertion and substitution.
\<close>

function levenshtein :: "'a list \<Rightarrow> 'a list \<Rightarrow> nat" where
  "levenshtein xs ys =
     (if xs = [] then length ys
      else if ys = [] then length xs
      else min (min (levenshtein (butlast xs) ys + 1) (levenshtein xs (butlast ys) + 1))
               (levenshtein (butlast xs) (butlast ys) + (if last xs = last ys then 0 else 1)))"
  by pat_completeness auto
termination
  by (relation "measure (\<lambda>(xs, ys). length xs + length ys)") (auto simp add: neq_Nil_conv)

declare levenshtein.simps [simp del]

text \<open>
  Row \<open>i\<close> of the distance table, and the table once rows \<open>0..k\<close> are filled: the
  states the loops of levenshteinDistance pass through.
\<close>

definition lev_row :: "'a list \<Rightarrow> 'a list \<Rightarrow> nat \<Rightarrow> nat list" where
  "lev_row s1 s2 i = map (\<lambda>j. levenshtein (take j s1) (take i s2)) [0..<Suc (length s1)]"

definition lev_matrix :: "'a list \<Rightarrow> 'a list \<Rightarrow> nat \<Rightarrow> nat list list" where
  "lev_matrix s1 s2 k = map (\<lambda>i. if i \<le> k then lev_row s1 s2 i else [i]) [0..<Suc (length s2)]"

section \<open>The flights route (GET /api/flights)\<close>

subsection \<open>Validation schema\<close>

text \<open>
  A zod string schema runs all its checks and, only when none raised an issue, its
  transform; a refinement after a transform sees the transformed value.  A field schema is
  modelled as a function to \<open>option\<close>, \<open>None\<close> standing for at least one issue: the
  route discards the issues themselves.
\<close>

definition is_upper :: "char \<Rightarrow> bool" where
  "is_upper ch = (65 \<le> (of_char ch :: nat) \<and> (of_char ch :: nat) \<le> 90)"

text \<open>\<^verbatim>\<open>/^[A-Z]{3}$/\<close>\<close>

definition matches_code :: "string \<Rightarrow> bool" where
  "matches_code s = (length s = 3 \<and> list_all is_upper s)"

text \<open>\<^verbatim>\<open>/^\d{4}-\d{2}-\d{2}$/\<close>\<close>

definition matches_date :: "string \<Rightarrow> bool" where
  "matches_date s =
     (length s = 10 \<and> list_all is_digit (take 4 s) \<and> s ! 4 = CHR ''-'' \<and>
      list_all is_digit (take 2 (drop 5 s)) \<and> s ! 7 = CHR ''-'' \<and>
      list_all is_digit (drop 8 s))"

definition code_schema :: "string \<Rightarrow> string option" where
  "code_schema val =
     (if 3 \<le> length val \<and> length val \<le> 3 \<and> matches_code val
      then Some (toUpperCase val) else None)"

text \<open>
  The date refinement compares \<^verbatim>\<open>new Date(date)\<close> with the start of the current
  local day, \<open>today\<close>; an invalid date compares false.
\<close>

definition date_schema :: "date_api \<Rightarrow> time \<Rightarrow> string \<Rightarrow> string option" where
  "date_schema d today val =
     (if matches_date val \<and> (case getTime d val of Some t \<Rightarrow> today \<le> t | None \<Rightarrow> False)
      then Some val else None)"

definition is_space :: "char \<Rightarrow> bool" where
  "is_space ch = ((of_char ch :: nat) \<in> {9, 10, 11, 12, 13, 32})"

definition digit_value :: "nat \<Rightarrow> char \<Rightarrow> nat option" where
  "digit_value radix ch =
     (let n = (of_char ch :: nat);
          v = (if 48 \<le> n \<and> n \<le> 57 then Some (n - 48)
               else if 97 \<le> n \<and> n \<le> 122 then Some (n - 87)
               else if 65 \<le> n \<and> n \<le> 90 then Some (n - 55)
               else None)
      in case v of Some x \<Rightarrow> if x < radix then Some x else None | None \<Rightarrow> None)"

text \<open>
  \<^verbatim>\<open>parseInt(s)\<close> with no radix: leading white space, an optional sign, an optional
  \<^verbatim>\<open>0x\<close> prefix selecting base 16, then the longest run of digits; \<open>None\<close> is NaN.
\<close>

definition parseInt :: "string \<Rightarrow> int option" where
  "parseInt s =
     (let s1 = dropWhile is_space s;
          negative = (s1 \<noteq> [] \<and> hd s1 = CHR ''-'');
          s2 = (if s1 \<noteq> [] \<and> (hd s1 = CHR ''-'' \<or> hd s1 = CHR ''+'') then tl s1 else s1);
          hex = (length s2 \<ge> 2 \<and> hd s2 = CHR ''0'' \<and> (s2 ! 1 = CHR ''x'' \<or> s2 ! 1 = CHR ''X''));
          radix = (if hex then 16 else 10);
          s3 = (if hex then drop 2 s2 else s2);
          ds = takeWhile (\<lambda>ch. digit_value radix ch \<noteq> None) s3;
          magnitude = foldl (\<lambda>acc ch. radix * acc + the (digit_value radix ch)) 0 ds
      in if ds = [] then None
         else Some (if negative then - int magnitude else int magnitude))"

definition count_schema :: "int \<Rightarrow> int \<Rightarrow> string \<Rightarrow> int option" where
  "count_schema lo hi val =
     (case parseInt val of
        Some n \<Rightarrow> if lo \<le> n \<and> n \<le> hi then Some n else None
      | None \<Rightarrow> None)"

record FlightSearchInput =
  input_departure :: string
  input_arrival :: string
  departDate :: string
  returnDate :: "string option"
  adults :: int
  children :: int
  max_results :: int

subsection \<open>parseSearchParams\<close>

text \<open>
  The decoded query parameters in order; \<^verbatim>\<open>get\<close> returns the first value of a name.
  \<^verbatim>\<open>get(k) || dflt\<close> replaces an absent or empty value.
\<close>

type_synonym query = "(string \<times> string) list"

definition get_or :: "query \<Rightarrow> string \<Rightarrow> string \<Rightarrow> string" where
  "get_or q k dflt = (case map_of q k of Some v \<Rightarrow> if v = [] then dflt else v | None \<Rightarrow> dflt)"

text \<open>
  \<open>Inl\<close> carries the \<^verbatim>\<open>errors\<close> object, which the route leaves empty.  The raw
  object has no \<^verbatim>\<open>returnDate\<close> key, so that optional field validates as absent.
\<close>

definition parseSearchParams ::
  "date_api \<Rightarrow> time \<Rightarrow> query \<Rightarrow> (string \<times> string) list + FlightSearchInput" where
  "parseSearchParams d today queryParams =
     (case (code_schema (get_or queryParams ''departure'' []),
            code_schema (get_or queryParams ''arrival'' []),
            date_schema d today (get_or queryParams ''departDate'' []),
            count_schema 1 9 (get_or queryParams ''adults'' ''1''),
            count_schema 0 8 (get_or queryParams ''children'' ''0''),
            count_schema 1 250 (get_or queryParams ''max'' ''50'')) of
        (Some dep, Some arr, Some date, Some a, Some c, Some m) \<Rightarrow>
          Inr \<lparr>input_departure = dep, input_arrival = arr, departDate = date,
               returnDate = None, adults = a, children = c, max_results = m\<rparr>
      | _ \<Rightarrow> Inl [])"

record SearchParams =
  params_departure :: string
  params_arrival :: string
  params_departDate :: string
  params_adults :: int
  params_children :: int
  params_max :: int

definition buildSearchParams :: "FlightSearchInput \<Rightarrow> SearchParams" where
  "buildSearchParams validated =
     \<lparr>params_departure = input_departure validated,
      params_arrival = input_arrival validated,
      params_departDate = departDate validated,
      params_adults = adults validated,
      params_children = children validated,
      params_max = max_results validated\<rparr>"

subsection \<open>The GET handler\<close>

text \<open>The JSON responses of the handler, one constructor for each \<^verbatim>\<open>NextResponse.json\<close>.\<close>

datatype 'f flights_response =
    ValidationFailed "(string \<times> string) list"
  | ConfigurationError
  | RateLimitExceeded
  | AuthenticationFailed
  | RequestTimeout
  | SearchFailed string
  | Success "'f list" nat FlightSearchInput string

fun http_status :: "'f flights_response \<Rightarrow> nat" where
  "http_status (ValidationFailed details) = 400"
| "http_status ConfigurationError = 500"
| "http_status RateLimitExceeded = 429"
| "http_status AuthenticationFailed = 401"
| "http_status RequestTimeout = 504"
| "http_status (SearchFailed message) = 400"
| "http_status (Success flights n validated stamp) = 200"

text \<open>\<^verbatim>\<open>meta.searchParams\<close> of a response, present on the 200 response only.\<close>

fun meta_searchParams :: "'f flights_response \<Rightarrow> FlightSearchInput option" where
  "meta_searchParams (Success flights n validated stamp) = Some validated"
| "meta_searchParams r = None"

text \<open>
  The handler.  Its collaborators are parameters: the date interface and the start of the
  current day, the ISO timestamp of the response, and the Amadeus client, given by its
  \<^verbatim>\<open>searchFlights\<close> method (\<open>None\<close> when \<^verbatim>\<open>getAmadeusClient\<close> throws).
\<close>

definition GET_flights ::
  "date_api \<Rightarrow> time \<Rightarrow> string \<Rightarrow> (SearchParams \<Rightarrow> string + 'f list) option \<Rightarrow> query \<Rightarrow>
     'f flights_response" where
  "GET_flights d today stamp client searchParams =
     (case parseSearchParams d today searchParams of
        Inl errors \<Rightarrow> ValidationFailed errors
      | Inr validatedParams \<Rightarrow>
          (case client of
             None \<Rightarrow> ConfigurationError
           | Some searchFlights \<Rightarrow>
               (case searchFlights (buildSearchParams validatedParams) of
                  Inl errorMessage \<Rightarrow>
                    if includes_str errorMessage ''Rate limit'' then RateLimitExceeded
                    else if includes_str errorMessage ''Authentication'' then AuthenticationFailed
                    else if includes_str errorMessage ''timeout'' then RequestTimeout
                    else SearchFailed errorMessage
                | Inr flights \<Rightarrow> Success flights (length flights) validatedParams stamp)))"

text \<open>
  The request of the scenario, with the arrival code left open; a date interface that knows
  1 January 2099; and 3 November 2025 as the current day.
\<close>

definition scenario_query :: "string \<Rightarrow> query" where
  "scenario_query arr =
     [(''departure'', ''JFK''), (''arrival'', arr), (''departDate'', ''2099-01-01''),
      (''adults'', ''2'')]"

definition scenario_dates :: date_api where
  "scenario_dates =
     \<lparr>getHours = (\<lambda>s. None),
      getTime = (\<lambda>s. if s = ''2099-01-01'' then Some 4070908800000 else None)\<rparr>"

definition scenario_today :: time where
  "scenario_today = 1762128000000"

subsection \<open>Predicates used to state the filter properties\<close>




subsection \<open>Sample flights\<close>

text \<open>
  A one-stop flight of ten hours in total whose first leg takes two hours, and a date
  interface that reads the hour from the two digits behind the \<^verbatim>\<open>T\<close> of a timestamp
  \<^verbatim>\<open>YYYY-MM-DDTHH:MM:SS\<close>.
\<close>

definition sample_segment :: "string \<Rightarrow> string \<Rightarrow> string \<Rightarrow> string \<Rightarrow> string \<Rightarrow> FlightSegment" where
  "sample_segment origin dep dest arr dur =
     \<lparr>segment_id = ''1'',
      segment_departure = \<lparr>airport = origin, time = dep, terminal = None\<rparr>,
      segment_arrival = \<lparr>airport = dest, time = arr, terminal = None\<rparr>,
      carrierCode = ''BA'',
      flight_number = ''100'',
      segment_duration = dur,
      numberOfStops = 0\<rparr>"

definition sample_flight :: "string \<Rightarrow> rat \<Rightarrow> nat \<Rightarrow> unit ProcessedFlight" where
  "sample_flight ident p n =
     \<lparr>flight_id = ident,
      departure = \<lparr>airport = ''JFK'', time = ''2099-01-01T08:00:00'', terminal = None\<rparr>,
      arrival = \<lparr>airport = ''LHR'', time = ''2099-01-01T18:00:00'', terminal = None\<rparr>,
      duration = ''PT10H'',
      stops = n,
      airlines = [''BA''],
      price = p,
      currency = ''USD'',
      cabin = ECONOMY,
      bestAtTime = Some ''10h'',
      departureDate = ''2099-01-01'',
      segments = [sample_segment ''JFK'' ''2099-01-01T08:00:00'' ''KEF'' ''2099-01-01T10:00:00'' ''PT2H'',
                  sample_segment ''KEF'' ''2099-01-01T11:00:00'' ''LHR'' ''2099-01-01T18:00:00'' ''PT7H''],
      rawOffer = ()\<rparr>"

definition sample_dates :: date_api where
  "sample_dates =
     \<lparr>getHours = (\<lambda>s. if length s = 19 then Some (decimal (take 2 (drop 11 s))) else None),
      getTime = (\<lambda>s. None)\<rparr>"

definition sample_heap :: "unit ProcessedFlight list \<Rightarrow> unit ProcessedFlight heap" where
  "sample_heap xs = \<lparr>cells = (\<lambda>a. if a = 0 then xs else []), next_ref = 1\<rparr>"

subsection \<open>Sample environments and client states\<close>

text \<open>
  An upstream that grants a 600-second token after 10 ms and answers every API call after
  20 ms with status 503 and an error envelope; a world at time zero; a new client; and
  clients holding a cached reply, with quota left and with the quota used up.
\<close>

definition failing_env :: env where
  "failing_env =
     \<lparr>auth_net = (\<lambda>n. (10, AuthOk (Parsed (''tok'', 600)))),
      api_net = (\<lambda>n. (20, Replied \<lparr>status = 503,
                   body = Parsed (JObj [(''errors'', JArr [JObj [(''detail'', JStr ''Service down'')]])])\<rparr>))\<rparr>"

definition new_world :: world where
  "new_world = \<lparr>clock = 0, auth_calls = 0, api_calls = 0\<rparr>"

definition new_client :: AmadeusClient where
  "new_client = \<lparr>cachedToken = None, rateLimitMap = Map.empty, requestCache = Map.empty\<rparr>"

definition cached_client :: AmadeusClient where
  "cached_client =
     \<lparr>cachedToken = None,
      rateLimitMap = [''global'' \<mapsto> \<lparr>requestCount = 5, resetTime = 60000\<rparr>],
      requestCache = [cache_key ''/v2/shopping/flight-offers?max=50'' \<mapsto>
                        \<lparr>data = JObj [(''data'', JArr [])], timestamp = 0\<rparr>]\<rparr>"

definition exhausted_client :: AmadeusClient where
  "exhausted_client =
     \<lparr>cachedToken = None,
      rateLimitMap = [''global'' \<mapsto> \<lparr>requestCount = 30, resetTime = 60000\<rparr>],
      requestCache = [cache_key ''/v2/shopping/flight-offers?max=50'' \<mapsto>
                        \<lparr>data = JObj [(''data'', JArr [])], timestamp = 0\<rparr>]\<rparr>"

section \<open>Properties\<close>

subsection \<open>Rate limiter\<close>

lemma RATE_LIMIT_WINDOW_pos: "0 < RATE_LIMIT_WINDOW"
  by (simp add: RATE_LIMIT_WINDOW_def)

lemma RATE_LIMIT_pos: "0 < RATE_LIMIT"
  by (simp add: RATE_LIMIT_def)

lemma checkRateLimit_inside:
  assumes "m key = Some \<lparr>requestCount = k, resetTime = R\<rparr>" and "t < R"
  shows "checkRateLimit t key m =
           (if k < RATE_LIMIT
            then (True, m(key \<mapsto> \<lparr>requestCount = Suc k, resetTime = R\<rparr>))
            else (False, m))"
proof -
  have "m(key \<mapsto> \<lparr>requestCount = k, resetTime = R\<rparr>) = m"
    using assms(1) by (simp add: fun_upd_idem)
  then show ?thesis
    using assms by (simp add: checkRateLimit_def Let_def)
qed

lemma checkRateLimit_calls_Cons:
  "fst (checkRateLimit_calls key (t # ts) m) =
     fst (checkRateLimit t key m) # fst (checkRateLimit_calls key ts (snd (checkRateLimit t key m)))"
  by (simp split: prod.splits)

lemma upt_shift:
  "map P [0..<Suc n] = P 0 # map (\<lambda>i. P (Suc i)) [0..<n]"
  by (simp add: upt_rec [of 0] map_Suc_upt [symmetric] del: upt_Suc)

lemma checkRateLimit_calls_inside:
  assumes "m key = Some \<lparr>requestCount = k, resetTime = R\<rparr>" and "\<forall>t\<in>set ts. t < R"
  shows "fst (checkRateLimit_calls key ts m) = map (\<lambda>i. k + i < RATE_LIMIT) [0..<length ts]"
  using assms
proof (induction ts arbitrary: m k)
  case Nil
  then show ?case by simp
next
  case (Cons t ts)
  have step: "checkRateLimit t key m =
           (if k < RATE_LIMIT
            then (True, m(key \<mapsto> \<lparr>requestCount = Suc k, resetTime = R\<rparr>))
            else (False, m))"
    using Cons.prems by (simp add: checkRateLimit_inside)
  have shift: "map (\<lambda>i. k + i < RATE_LIMIT) [0..<Suc (length ts)] =
               (k < RATE_LIMIT) # map (\<lambda>i. Suc k + i < RATE_LIMIT) [0..<length ts]"
    using upt_shift [of "\<lambda>i. k + i < RATE_LIMIT" "length ts"] by simp
  show ?case
  proof (cases "k < RATE_LIMIT")
    case True
    let ?m1 = "m(key \<mapsto> \<lparr>requestCount = Suc k, resetTime = R\<rparr>)"
    have "fst (checkRateLimit_calls key ts ?m1) =
            map (\<lambda>i. Suc k + i < RATE_LIMIT) [0..<length ts]"
      using Cons.prems by (intro Cons.IH) simp_all
    then show ?thesis
      using True step shift by (simp only: checkRateLimit_calls_Cons length_Cons) simp
  next
    case False
    have "fst (checkRateLimit_calls key ts m) =
            map (\<lambda>i. k + i < RATE_LIMIT) [0..<length ts]"
      using Cons.prems by (intro Cons.IH) simp_all
    moreover have "map (\<lambda>i. k + i < RATE_LIMIT) [0..<length ts] =
                   map (\<lambda>i. Suc k + i < RATE_LIMIT) [0..<length ts]"
      using False by simp
    ultimately show ?thesis
      using False step shift by (simp only: checkRateLimit_calls_Cons length_Cons) simp
  qed
qed

lemma checkRateLimit_first:
  assumes "m key = None"
  shows "checkRateLimit t key m =
           (True, m(key \<mapsto> \<lparr>requestCount = 1, resetTime = t + RATE_LIMIT_WINDOW\<rparr>))"
  using assms RATE_LIMIT_WINDOW_pos RATE_LIMIT_pos
  by (simp add: checkRateLimit_def Let_def)

text \<open>
  C6.  For every key, with quota \<open>RATE_LIMIT\<close> and window length \<open>RATE_LIMIT_WINDOW\<close>:
  starting from a fresh window (no entry for the key yet, the window then ending
  \<open>RATE_LIMIT_WINDOW\<close> after the first call; or an entry with count zero), among calls
  that all fall before the window's reset instant exactly the first \<open>RATE_LIMIT\<close> return
  true and every further one returns false; and a call at a time at or after the stored
  reset instant restarts the window (count reset to zero and then counted, reset instant
  moved to \<open>now + RATE_LIMIT_WINDOW\<close>) and returns true.
\<close>

theorem checkRateLimit_quota_and_reset:
  "((case m key of
       None \<Rightarrow> ts \<noteq> [] \<and> R = hd ts + RATE_LIMIT_WINDOW
     | Some i \<Rightarrow> i = \<lparr>requestCount = 0, resetTime = R\<rparr>) \<longrightarrow>
    (\<forall>t\<in>set ts. t < R) \<longrightarrow>
      fst (checkRateLimit_calls key ts m) = map (\<lambda>i. i < RATE_LIMIT) [0..<length ts])
   \<and>
   (m key = Some info \<longrightarrow> resetTime info \<le> now \<longrightarrow>
      checkRateLimit now key m =
        (True, m(key \<mapsto> \<lparr>requestCount = 1, resetTime = now + RATE_LIMIT_WINDOW\<rparr>)))"
proof (intro conjI impI)
  assume fresh: "case m key of
       None \<Rightarrow> ts \<noteq> [] \<and> R = hd ts + RATE_LIMIT_WINDOW
     | Some i \<Rightarrow> i = \<lparr>requestCount = 0, resetTime = R\<rparr>"
    and inside: "\<forall>t\<in>set ts. t < R"
  show "fst (checkRateLimit_calls key ts m) = map (\<lambda>i. i < RATE_LIMIT) [0..<length ts]"
  proof (cases "m key")
    case (Some i)
    then have "m key = Some \<lparr>requestCount = 0, resetTime = R\<rparr>"
      using fresh by simp
    then show ?thesis
      using checkRateLimit_calls_inside [of m key 0 R ts] inside by simp
  next
    case None
    then obtain t rest where ts: "ts = t # rest" and R: "R = t + RATE_LIMIT_WINDOW"
      using fresh by (cases ts) auto
    let ?m1 = "m(key \<mapsto> \<lparr>requestCount = 1, resetTime = R\<rparr>)"
    have first: "checkRateLimit t key m = (True, ?m1)"
      using None R by (simp add: checkRateLimit_first)
    have "fst (checkRateLimit_calls key rest ?m1) =
            map (\<lambda>i. 1 + i < RATE_LIMIT) [0..<length rest]"
      using inside ts checkRateLimit_calls_inside [of ?m1 key 1 R rest] by simp
    moreover have "map (\<lambda>i. i < RATE_LIMIT) [0..<Suc (length rest)] =
               (0 < RATE_LIMIT) # map (\<lambda>i. 1 + i < RATE_LIMIT) [0..<length rest]"
      using upt_shift [of "\<lambda>i. i < RATE_LIMIT" "length rest"] by simp
    ultimately show ?thesis
      using first ts RATE_LIMIT_pos by (simp only: checkRateLimit_calls_Cons length_Cons) simp
  qed
next
  assume "m key = Some info" and "resetTime info \<le> now"
  then show "checkRateLimit now key m =
        (True, m(key \<mapsto> \<lparr>requestCount = 1, resetTime = now + RATE_LIMIT_WINDOW\<rparr>))"
    using RATE_LIMIT_pos by (cases info) (simp add: checkRateLimit_def Let_def)
qed

theorem checkRateLimit_quota_and_reset_witness:
  "(case Map.empty ''global'' of
       None \<Rightarrow> map int [0..<32] \<noteq> [] \<and> 60000 = hd (map int [0..<32]) + RATE_LIMIT_WINDOW
     | Some i \<Rightarrow> i = \<lparr>requestCount = 0, resetTime = 60000\<rparr>) \<and>
   list_all (\<lambda>t. t < 60000) (map int [0..<32]) \<and>
   fst (checkRateLimit_calls ''global'' (map int [0..<32]) Map.empty) = replicate 30 True @ [False, False] \<and>
   resetTime \<lparr>requestCount = 30, resetTime = 60000\<rparr> \<le> 60000 \<and>
   checkRateLimit 60000 ''global'' [''global'' \<mapsto> \<lparr>requestCount = 30, resetTime = 60000\<rparr>] =
     (True, [''global'' \<mapsto> \<lparr>requestCount = 1, resetTime = 120000\<rparr>])"
proof -
  have h1: "case Map.empty ''global'' of
       None \<Rightarrow> map int [0..<32] \<noteq> [] \<and> (60000::int) = hd (map int [0..<32]) + RATE_LIMIT_WINDOW
     | Some i \<Rightarrow> i = \<lparr>requestCount = 0, resetTime = 60000\<rparr>"
    by (simp add: RATE_LIMIT_WINDOW_def upt_rec [of 0])
  have h2: "\<forall>t\<in>set (map int [0..<32]). t < 60000" by auto
  have m: "map (\<lambda>i. i < RATE_LIMIT) [0..<length (map int [0..<32])] = replicate 30 True @ [False, False]"
    unfolding RATE_LIMIT_def by code_simp
  note inst = checkRateLimit_quota_and_reset [where m = Map.empty and key = "''global''" and ts = "map int [0..<32]" and R = 60000]
  have c1: "fst (checkRateLimit_calls ''global'' (map int [0..<32]) Map.empty) = replicate 30 True @ [False, False]"
    using inst h1 h2 m by simp
  have c2: "checkRateLimit 60000 ''global'' [''global'' \<mapsto> \<lparr>requestCount = 30, resetTime = 60000\<rparr>] =
     (True, [''global'' \<mapsto> \<lparr>requestCount = 1, resetTime = 120000\<rparr>])"
    using checkRateLimit_quota_and_reset [where m = "[''global'' \<mapsto> \<lparr>requestCount = 30, resetTime = 60000\<rparr>]" and key = "''global''" and info = "\<lparr>requestCount = 30, resetTime = 60000\<rparr>" and now = 60000]
    by (simp add: RATE_LIMIT_WINDOW_def)
  have h2': "list_all (\<lambda>t. t < 60000) (map int [0..<32])"
    using h2 by (simp only: list_all_iff)
  show ?thesis using h1 h2' c1 c2 by simp
qed

subsection \<open>Evaluation of the client on concrete inputs\<close>

lemmas eval_defs = request_def no_options_def checkRateLimit_def getToken_def fetch_token_def json_read_def
     or_default_def MAX_RETRIES_def REQUEST_TIMEOUT_def attempts.simps attempt_body_def fetchWithTimeout_def ok_def catch_block_def
     json_reread_def sleep_def RATE_LIMIT_def RATE_LIMIT_WINDOW_def Let_def cache_lookup_def cache_key_def cache_store_def
     CACHE_TTL_def TOKEN_BUFFER_def

subsection \<open>Token manager\<close>






subsection \<open>Gate order of request\<close>

lemma getToken_rateLimitMap: "rateLimitMap (snd (snd (getToken e s))) = rateLimitMap (snd s)"
  by (cases s) (auto simp add: getToken_def split: option.splits prod.splits auth_reply.splits sum.splits)

lemma catch_block_client: "snd (snd (catch_block n attempt msg s)) = snd s"
  by (cases s) (simp add: catch_block_def)

lemma attempt_body_rateLimitMap:
  "rateLimitMap (snd (snd (attempt_body e tmo n cacheKey attempt s))) = rateLimitMap (snd s)"
  by (cases s)
     (auto simp add: attempt_body_def catch_block_def cache_store_def Let_def
           split: prod.splits api_reply.splits sum.splits)

lemma attempts_rateLimitMap:
  "rateLimitMap (snd (snd (attempts e tmo n cacheKey attempt lastError s))) = rateLimitMap (snd s)"
proof (induction e tmo n cacheKey attempt lastError s rule: attempts.induct)
  case (1 e tmo n cacheKey attempt lastError s)
  show ?case
  proof (cases "attempt < n")
    case False
    then show ?thesis by (simp add: attempts.simps)
  next
    case True
    obtain res s1 where b: "attempt_body e tmo n cacheKey attempt s = (res, s1)"
      by (cases "attempt_body e tmo n cacheKey attempt s") auto
    have keep: "rateLimitMap (snd s1) = rateLimitMap (snd s)"
      using attempt_body_rateLimitMap [of e tmo n cacheKey attempt s] b by simp
    show ?thesis
    proof (cases res)
      case (Continue msg)
      then show ?thesis
        using True b keep "1.IH" [OF True b [symmetric] Continue]
        by (simp add: attempts.simps [of e tmo n cacheKey attempt])
    qed (use True b keep in \<open>simp_all add: attempts.simps [of e tmo n cacheKey attempt]\<close>)
  qed
qed

text \<open>
  C1 (as amended).  The cache lookup comes first: a call answered from a cache entry
  younger than \<open>CACHE_TTL\<close> returns the cached payload and leaves world and client
  untouched, so the rate-limit counter is not incremented.  A call that misses the cache
  runs the rate-limit check next, before authentication and before any upstream attempt:
  the rate-limit table after the call is the one that single check produced, and a
  rejected call fails with the rate-limit error without any network call.
\<close>

theorem request_gate_order:
  "(cache_lookup c (cache_key endpoint) (clock w) = Some d \<longrightarrow>
      request e endpoint options (w, c) = (Inr d, w, c)) \<and>
   (cache_lookup c (cache_key endpoint) (clock w) = None \<longrightarrow>
      rateLimitMap (snd (snd (request e endpoint options (w, c)))) =
        snd (checkRateLimit (clock w) ''global'' (rateLimitMap c)) \<and>
      (\<not> fst (checkRateLimit (clock w) ''global'' (rateLimitMap c)) \<longrightarrow>
         fst (request e endpoint options (w, c)) = Inl rate_limit_message \<and>
         fst (snd (request e endpoint options (w, c))) = w))"
proof (intro conjI impI)
  assume "cache_lookup c (cache_key endpoint) (clock w) = Some d"
  then show "request e endpoint options (w, c) = (Inr d, w, c)"
    by (simp add: request_def)
next
  assume miss: "cache_lookup c (cache_key endpoint) (clock w) = None"
  obtain allowed m where chk: "checkRateLimit (clock w) ''global'' (rateLimitMap c) = (allowed, m)"
    by (cases "checkRateLimit (clock w) ''global'' (rateLimitMap c)") auto
  show "rateLimitMap (snd (snd (request e endpoint options (w, c)))) =
        snd (checkRateLimit (clock w) ''global'' (rateLimitMap c))"
  proof (cases allowed)
    case False
    then show ?thesis using miss chk by (simp add: request_def)
  next
    case True
    obtain r s1 where tok: "getToken e (w, c\<lparr>rateLimitMap := m\<rparr>) = (r, s1)"
      by (cases "getToken e (w, c\<lparr>rateLimitMap := m\<rparr>)") auto
    have "rateLimitMap (snd s1) = m"
      using getToken_rateLimitMap [of e "(w, c\<lparr>rateLimitMap := m\<rparr>)"] tok by simp
    then show ?thesis
      using miss chk True tok
      by (cases r) (simp_all add: request_def attempts_rateLimitMap)
  qed
  show "fst (request e endpoint options (w, c)) = Inl rate_limit_message"
    if "\<not> fst (checkRateLimit (clock w) ''global'' (rateLimitMap c))"
    using that miss chk by (simp add: request_def)
  show "fst (snd (request e endpoint options (w, c))) = w"
    if "\<not> fst (checkRateLimit (clock w) ''global'' (rateLimitMap c))"
    using that miss chk by (simp add: request_def)
qed

text \<open>
  A call answered from the cache with five requests counted in the current window leaves
  the count at five.
\<close>

theorem request_cache_hit_not_counted_counterexample:
  "request failing_env ''/v2/shopping/flight-offers?max=50'' no_options
      (\<lparr>clock = 1000, auth_calls = 0, api_calls = 0\<rparr>, cached_client) =
     (Inr (JObj [(''data'', JArr [])]), \<lparr>clock = 1000, auth_calls = 0, api_calls = 0\<rparr>, cached_client) \<and>
   rateLimitMap cached_client ''global'' = Some \<lparr>requestCount = 5, resetTime = 60000\<rparr>"
  by (simp add: request_def cache_lookup_def cached_client_def CACHE_TTL_def)

theorem request_gate_order_witness:
  "cache_lookup exhausted_client (cache_key ''/v2/shopping/flight-offers?max=50'') 1000 =
       Some (JObj [(''data'', JArr [])]) \<and>
   request failing_env ''/v2/shopping/flight-offers?max=50'' no_options
      (\<lparr>clock = 1000, auth_calls = 0, api_calls = 0\<rparr>, exhausted_client) =
     (Inr (JObj [(''data'', JArr [])]), \<lparr>clock = 1000, auth_calls = 0, api_calls = 0\<rparr>, exhausted_client) \<and>
   cache_lookup exhausted_client (cache_key ''/v1/other'') 1000 = None \<and>
   \<not> fst (checkRateLimit 1000 ''global'' (rateLimitMap exhausted_client)) \<and>
   request failing_env ''/v1/other'' no_options
      (\<lparr>clock = 1000, auth_calls = 0, api_calls = 0\<rparr>, exhausted_client) =
     (Inl rate_limit_message, \<lparr>clock = 1000, auth_calls = 0, api_calls = 0\<rparr>, exhausted_client)"
proof -
  let ?w = "\<lparr>clock = 1000, auth_calls = 0, api_calls = 0\<rparr>"
  have hit: "cache_lookup exhausted_client (cache_key ''/v2/shopping/flight-offers?max=50'') (clock ?w) =
       Some (JObj [(''data'', JArr [])])"
    by (simp add: cache_lookup_def exhausted_client_def CACHE_TTL_def)
  have miss: "cache_lookup exhausted_client (cache_key ''/v1/other'') (clock ?w) = None"
    by (simp add: cache_lookup_def exhausted_client_def cache_key_def)
  have full: "checkRateLimit (clock ?w) ''global'' (rateLimitMap exhausted_client) = (False, rateLimitMap exhausted_client)"
    by (simp add: checkRateLimit_def exhausted_client_def RATE_LIMIT_def Let_def fun_upd_idem)
  have a: "request failing_env ''/v2/shopping/flight-offers?max=50'' no_options (?w, exhausted_client) =
     (Inr (JObj [(''data'', JArr [])]), ?w, exhausted_client)"
    using request_gate_order [of exhausted_client "''/v2/shopping/flight-offers?max=50''" ?w
        "JObj [(''data'', JArr [])]" failing_env no_options] hit by simp
  have b: "request failing_env ''/v1/other'' no_options (?w, exhausted_client) =
     (Inl rate_limit_message, ?w, exhausted_client)"
  proof -
    note g = request_gate_order [of exhausted_client "''/v1/other''" ?w d failing_env no_options for d]
    have "rateLimitMap (snd (snd (request failing_env ''/v1/other'' no_options (?w, exhausted_client)))) =
            rateLimitMap exhausted_client"
      and "fst (request failing_env ''/v1/other'' no_options (?w, exhausted_client)) = Inl rate_limit_message"
      and "fst (snd (request failing_env ''/v1/other'' no_options (?w, exhausted_client))) = ?w"
      using g miss full by simp_all
    moreover have "snd (snd (request failing_env ''/v1/other'' no_options (?w, exhausted_client))) = exhausted_client"
      using miss full by (simp add: request_def)
    ultimately show ?thesis
      by (metis prod.collapse)
  qed
  show ?thesis using hit miss full a b by simp
qed

subsection \<open>Retry exhaustion\<close>

text \<open>
  On the last attempt a reply with status 429 or 5xx never surfaces its formatted error:
  the iteration throws what the second read of the body rejects with.
\<close>

lemma attempt_body_last_attempt_error_reply:
  assumes "api_net e (api_calls w) = (elapsed, Replied r)" and "elapsed < tmo"
    and "\<not> ok r" and "status r = 429 \<or> 500 \<le> status r" and "Suc attempt = n"
  shows "fst (attempt_body e tmo n cacheKey attempt (w, c)) =
           Thrown (case body r of NoBody \<Rightarrow> syntax_error_message | _ \<Rightarrow> body_unusable_message)"
  using assms
  by (auto simp add: attempt_body_def fetchWithTimeout_def catch_block_def json_reread_def Let_def
        split: body.splits)

text \<open>
  C4.  Against an upstream that answers every attempt with status 503 and the error detail
  \<^verbatim>\<open>Service down\<close>, the call makes three attempts and then fails, but not with the
  formatted upstream detail: on the last attempt the loop falls through to a second
  \<^verbatim>\<open>response.json()\<close>, whose TypeError replaces the formatted error.
\<close>

theorem request_exhausted_loses_error_detail:
  "request failing_env ''/v2/shopping/flight-offers?max=50'' no_options (new_world, new_client) =
     (Inl body_unusable_message,
      \<lparr>clock = 3070, auth_calls = 1, api_calls = 3\<rparr>,
      \<lparr>cachedToken = Some \<lparr>token = ''tok'', expiresAt = 600010\<rparr>,
       rateLimitMap = [''global'' \<mapsto> \<lparr>requestCount = 1, resetTime = 60000\<rparr>],
       requestCache = Map.empty\<rparr>) \<and>
   formatError (JObj [(''errors'', JArr [JObj [(''detail'', JStr ''Service down'')]])]) = ''Service down''"
  by (simp add: eval_defs failing_env_def new_world_def new_client_def formatError_def)

subsection \<open>getAirport\<close>

lemma attempt_body_api_calls:
  "api_calls (fst (snd (attempt_body e tmo n cacheKey attempt s))) = Suc (api_calls (fst s))"
  by (cases s)
     (auto simp add: attempt_body_def fetchWithTimeout_def catch_block_def cache_store_def sleep_def Let_def
           split: prod.splits api_reply.splits sum.splits if_splits)

lemma json_reread_Inl: "\<exists>msg. json_reread b = Inl msg"
  by (cases b) (simp_all add: json_reread_def)

lemma attempt_body_no_return:
  assumes "\<And>r. snd (api_net e (api_calls (fst s))) = Replied r \<Longrightarrow> \<not> ok r"
  shows "fst (attempt_body e tmo n cacheKey attempt s) \<noteq> Returned d"
proof -
  obtain w c where s: "s = (w, c)" by (cases s)
  obtain elapsed reply where net: "api_net e (api_calls w) = (elapsed, reply)"
    by (cases "api_net e (api_calls w)")
  show ?thesis
  proof (cases "tmo \<le> elapsed")
    case True
    then show ?thesis
      using s net by (simp add: attempt_body_def fetchWithTimeout_def catch_block_def)
  next
    case False
    show ?thesis
    proof (cases reply)
      case (Rejected msg)
      then show ?thesis
        using s net False by (simp add: attempt_body_def fetchWithTimeout_def catch_block_def)
    next
      case (Replied r)
      then have "\<not> ok r" using assms s net by simp
      moreover obtain msg where "json_reread (body r) = Inl msg"
        using json_reread_Inl by blast
      ultimately show ?thesis
        using s net False Replied
        by (simp add: attempt_body_def fetchWithTimeout_def catch_block_def Let_def)
    qed
  qed
qed

lemma attempts_fail:
  assumes "\<And>k r. api_calls (fst s) \<le> k \<Longrightarrow> snd (api_net e k) = Replied r \<Longrightarrow> \<not> ok r"
  shows "\<exists>msg. fst (attempts e tmo n cacheKey attempt lastError s) = Inl msg"
  using assms
proof (induction e tmo n cacheKey attempt lastError s rule: attempts.induct)
  case (1 e tmo n cacheKey attempt lastError s)
  show ?case
  proof (cases "attempt < n")
    case False
    then show ?thesis by (simp add: attempts.simps)
  next
    case True
    obtain res s1 where b: "attempt_body e tmo n cacheKey attempt s = (res, s1)"
      by (cases "attempt_body e tmo n cacheKey attempt s") auto
    have calls: "api_calls (fst s1) = Suc (api_calls (fst s))"
      using attempt_body_api_calls [of e tmo n cacheKey attempt s] b by simp
    have "\<not> ok r" if "snd (api_net e (api_calls (fst s))) = Replied r" for r
      using "1.prems" [of "api_calls (fst s)" r] that by simp
    then have "fst (attempt_body e tmo n cacheKey attempt s) \<noteq> Returned d" for d
      by (rule attempt_body_no_return)
    then have noret: "res \<noteq> Returned d" for d
      using b by simp
    show ?thesis
    proof (cases res)
      case (Returned d)
      then show ?thesis using noret by simp
    next
      case (Thrown msg)
      then show ?thesis
        using True b by (simp add: attempts.simps [of e tmo n cacheKey attempt])
    next
      case (Continue msg)
      have later: "\<not> ok r" if "api_calls (fst s1) \<le> k" and "snd (api_net e k) = Replied r" for k r
        using "1.prems" [of k r] that calls by simp
      have "\<exists>m. fst (attempts e tmo n cacheKey (Suc attempt) (Some msg) s1) = Inl m"
        using later by (rule "1.IH" [OF True b [symmetric] Continue])
      then show ?thesis
        using True b Continue by (simp add: attempts.simps [of e tmo n cacheKey attempt])
    qed
  qed
qed

lemma getToken_api_calls: "api_calls (fst (snd (getToken e s))) = api_calls (fst s)"
  by (cases s) (auto simp add: getToken_def fetch_token_def split: option.splits prod.splits auth_reply.splits sum.splits)

lemma request_fails_without_ok_reply:
  assumes "cache_lookup c (cache_key endpoint) (clock w) = None"
    and "\<And>k r. api_calls w \<le> k \<Longrightarrow> snd (api_net e k) = Replied r \<Longrightarrow> \<not> ok r"
  shows "\<exists>msg. fst (request e endpoint options (w, c)) = Inl msg"
proof -
  obtain allowed m where chk: "checkRateLimit (clock w) ''global'' (rateLimitMap c) = (allowed, m)"
    by (cases "checkRateLimit (clock w) ''global'' (rateLimitMap c)") auto
  show ?thesis
  proof (cases allowed)
    case False
    then show ?thesis using assms(1) chk by (simp add: request_def)
  next
    case True
    obtain r s1 where tok: "getToken e (w, c\<lparr>rateLimitMap := m\<rparr>) = (r, s1)"
      by (cases "getToken e (w, c\<lparr>rateLimitMap := m\<rparr>)") auto
    have calls: "api_calls (fst s1) = api_calls w"
      using getToken_api_calls [of e "(w, c\<lparr>rateLimitMap := m\<rparr>)"] tok by simp
    show ?thesis
    proof (cases r)
      case (Inl msg)
      then show ?thesis using assms(1) chk True tok by (simp add: request_def)
    next
      case (Inr t)
      have "\<exists>msg. fst (attempts e (or_default (timeout options) REQUEST_TIMEOUT)
                (or_default (retries options) MAX_RETRIES) (cache_key endpoint) 0 None s1) = Inl msg"
      proof (rule attempts_fail)
        fix k r
        assume "api_calls (fst s1) \<le> k" and "snd (api_net e k) = Replied r"
        then show "\<not> ok r" using assms(2) [of k r] calls by simp
      qed
      then show ?thesis using assms(1) chk True tok Inr by (simp add: request_def)
    qed
  qed
qed

text \<open>
  C10.  For every IATA code, when the upstream lookup fails, that is when the request
  rejects for whatever reason (rate-limit rejection, authentication failure, transport
  failure or timeout, or error responses on every attempt; see
  \<open>request_fails_without_ok_reply\<close>), getAirport returns the absent result and
  isValidAirport returns false.
\<close>

theorem getAirport_null_on_failure:
  assumes "fst (request e (''/v1/reference-data/locations?subType=AIRPORT&code='' @
                           encodeURIComponent code) no_options s) = Inl msg"
  shows "fst (getAirport e code s) = None \<and> fst (isValidAirport e code s) = False"
  using assms by (auto simp add: getAirport_def isValidAirport_def split: prod.splits sum.splits)

theorem getAirport_null_on_failure_witness:
  "fst (request failing_env (''/v1/reference-data/locations?subType=AIRPORT&code='' @
                           encodeURIComponent ''JFK'') no_options (new_world, new_client)) =
     Inl body_unusable_message \<and>
   fst (getAirport failing_env ''JFK'' (new_world, new_client)) = None \<and>
   fst (isValidAirport failing_env ''JFK'' (new_world, new_client)) = False"
proof -
  have h: "fst (request failing_env (''/v1/reference-data/locations?subType=AIRPORT&code='' @
                           encodeURIComponent ''JFK'') no_options (new_world, new_client)) =
     Inl body_unusable_message"
    by (simp add: eval_defs failing_env_def new_world_def new_client_def formatError_def)
  show ?thesis
    using h getAirport_null_on_failure [OF h] by simp
qed

subsection \<open>Duration filter\<close>

lemma filterByDuration_cells:
  "filterByDuration flights limit h = (r, h') \<Longrightarrow>
   cells h' r =
     filter (\<lambda>flight. js_le (Fin (of_nat (durationToMinutes (first_segment_duration flight)))) limit)
       (cells h flights)"
  by (auto simp add: filterByDuration_def array_filter_def new_array_def)

text \<open>
  C3.  The duration filter compares the bound with the duration of the flight's first
  segment, not with the flight's total duration: a one-stop flight of 600 minutes in
  total whose first leg takes 120 minutes is kept under a bound of 300 minutes.
\<close>

theorem filterByDuration_keeps_long_flight:
  "durationToMinutes (duration (sample_flight ''BA100'' 450 1)) = 600 \<and>
   \<not> js_le (Fin (of_nat (durationToMinutes (duration (sample_flight ''BA100'' 450 1))))) (Fin 300) \<and>
   cells (snd (filterByDuration 0 (Fin 300) (sample_heap [sample_flight ''BA100'' 450 1])))
         (fst (filterByDuration 0 (Fin 300) (sample_heap [sample_flight ''BA100'' 450 1]))) =
     [sample_flight ''BA100'' 450 1]"
  by code_simp

subsection \<open>Sorting by price\<close>

lemma insort_by_price_asc:
  "insort_by (compare_flights d ByPrice 1) x ys = insort_key price x ys"
  by (induction ys) (auto simp add: compare_flights_def)

lemma foldr_insort_by_price_asc:
  "foldr (insort_by (compare_flights d ByPrice 1)) xs [] = sort_key price xs"
  by (induction xs) (simp_all add: insort_by_price_asc sort_key_def)

lemma insort_by_last:
  assumes "\<forall>z\<in>set zs. c y z > 0"
  shows "insort_by c y zs = zs @ [y]"
  using assms by (induction zs) auto

lemma foldr_insort_by_price_desc:
  assumes "sorted (map price ys)" and "distinct (map price ys)"
  shows "foldr (insort_by (compare_flights d ByPrice (- 1))) ys [] = rev ys"
  using assms
proof (induction ys)
  case Nil
  then show ?case by simp
next
  case (Cons y ys)
  have "price y < price z" if "z \<in> set ys" for z
    using Cons.prems that by (force simp add: less_le)
  then have "\<forall>z\<in>set (rev ys). compare_flights d ByPrice (- 1) y z > 0"
    by (simp add: compare_flights_def)
  then have "insort_by (compare_flights d ByPrice (- 1)) y (rev ys) = rev ys @ [y]"
    by (rule insort_by_last)
  then show ?case using Cons by simp
qed

text \<open>
  C8.  For every non-empty array of flights with pairwise distinct prices, sorting the
  ascending-by-price result again with key price and direction desc yields exactly the
  reverse of the ascending-by-price order (and leaves the ascending array as it was).
\<close>

theorem sortFlights_desc_reverses_asc:
  assumes "cells h flights \<noteq> []"
    and "distinct (map price (cells h flights))"
    and "sortFlights d flights (Some ByPrice) (Some Asc) h = (asc, h1)"
    and "sortFlights d asc (Some ByPrice) (Some Desc) h1 = (desc, h2)"
  shows "cells h2 desc = rev (cells h1 asc) \<and> cells h2 asc = cells h1 asc \<and>
         cells h1 asc = sort_key price (cells h flights)"
proof -
  let ?xs = "cells h flights"
  have asc: "asc = next_ref h" and h1: "cells h1 asc = sort_key price ?xs"
    and n1: "next_ref h1 = Suc (next_ref h)"
    using assms(3)
    by (auto simp add: sortFlights_def new_array_def array_sort_def foldr_insort_by_price_asc)
  have srt: "sorted (map price (cells h1 asc))" and dst: "distinct (map price (cells h1 asc))"
    using assms(2) h1 by (simp_all add: distinct_map)
  have desc: "desc = next_ref h1"
    and h2: "cells h2 desc = foldr (insort_by (compare_flights d ByPrice (- 1))) (cells h1 asc) []"
    and keep: "cells h2 asc = cells h1 asc"
    using assms(4) asc n1
    by (auto simp add: sortFlights_def new_array_def array_sort_def)
  show ?thesis
    using h2 keep h1 foldr_insort_by_price_desc [OF srt dst] by simp
qed

theorem sortFlights_desc_reverses_asc_witness:
  "cells (sample_heap [sample_flight ''a'' 300 0, sample_flight ''b'' 100 1, sample_flight ''c'' 200 2]) 0 \<noteq> [] \<and>
   distinct (map price (cells (sample_heap [sample_flight ''a'' 300 0, sample_flight ''b'' 100 1, sample_flight ''c'' 200 2]) 0)) \<and>
   map flight_id
     (cells (snd (sortFlights sample_dates 0 (Some ByPrice) (Some Asc)
                   (sample_heap [sample_flight ''a'' 300 0, sample_flight ''b'' 100 1, sample_flight ''c'' 200 2])))
            (fst (sortFlights sample_dates 0 (Some ByPrice) (Some Asc)
                   (sample_heap [sample_flight ''a'' 300 0, sample_flight ''b'' 100 1, sample_flight ''c'' 200 2])))) =
     [''b'', ''c'', ''a''] \<and>
   map flight_id
     (cells (snd (sortFlights sample_dates
                   (fst (sortFlights sample_dates 0 (Some ByPrice) (Some Asc)
                     (sample_heap [sample_flight ''a'' 300 0, sample_flight ''b'' 100 1, sample_flight ''c'' 200 2])))
                   (Some ByPrice) (Some Desc)
                   (snd (sortFlights sample_dates 0 (Some ByPrice) (Some Asc)
                     (sample_heap [sample_flight ''a'' 300 0, sample_flight ''b'' 100 1, sample_flight ''c'' 200 2])))))
            (fst (sortFlights sample_dates
                   (fst (sortFlights sample_dates 0 (Some ByPrice) (Some Asc)
                     (sample_heap [sample_flight ''a'' 300 0, sample_flight ''b'' 100 1, sample_flight ''c'' 200 2])))
                   (Some ByPrice) (Some Desc)
                   (snd (sortFlights sample_dates 0 (Some ByPrice) (Some Asc)
                     (sample_heap [sample_flight ''a'' 300 0, sample_flight ''b'' 100 1, sample_flight ''c'' 200 2])))))) =
     [''a'', ''c'', ''b'']"
proof -
  let ?h = "sample_heap [sample_flight ''a'' 300 0, sample_flight ''b'' 100 1, sample_flight ''c'' 200 2]"
  let ?s1 = "sortFlights sample_dates 0 (Some ByPrice) (Some Asc) ?h"
  let ?s2 = "sortFlights sample_dates (fst ?s1) (Some ByPrice) (Some Desc) (snd ?s1)"
  have ne: "cells ?h 0 \<noteq> []" by (simp add: sample_heap_def)
  have di: "distinct (map price (cells ?h 0))" by (simp add: sample_heap_def sample_flight_def)
  have e1: "?s1 = (fst ?s1, snd ?s1)" by simp
  have e2: "?s2 = (fst ?s2, snd ?s2)" by simp
  note r = sortFlights_desc_reverses_asc [OF ne di e1 e2]
  have asc: "map flight_id (cells (snd ?s1) (fst ?s1)) = [''b'', ''c'', ''a'']"
    using r by (simp add: sample_heap_def sample_flight_def)
  have "map flight_id (cells (snd ?s2) (fst ?s2)) = rev (map flight_id (cells (snd ?s1) (fst ?s1)))"
    using r by (simp add: rev_map)
  then have desc: "map flight_id (cells (snd ?s2) (fst ?s2)) = [''a'', ''c'', ''b'']"
    using asc by simp
  show ?thesis using ne di asc desc by simp
qed

subsection \<open>applyFilters\<close>


















text \<open>
  The page's reset state is not a no-op state: it drops a flight priced above 10000 with
  four stops.
\<close>

lemma applyFilters_reset_filters_bounded:
  "cells (snd (applyFilters sample_dates 0 reset_filters
                 (sample_heap [sample_flight ''a'' 100 1, sample_flight ''b'' 20000 4])))
         (fst (applyFilters sample_dates 0 reset_filters
                 (sample_heap [sample_flight ''a'' 100 1, sample_flight ''b'' 20000 4]))) =
     [sample_flight ''a'' 100 1]"
  by code_simp

subsection \<open>Fuzzy score\<close>

lemma levenshtein_Nil1 [simp]: "levenshtein [] ys = length ys"
  by (simp add: levenshtein.simps)

lemma levenshtein_Nil2 [simp]: "levenshtein xs [] = length xs"
  by (simp add: levenshtein.simps [of xs "[]"])










lemma lev_matrix_length [simp]: "length (lev_matrix s1 s2 k) = Suc (length s2)"
  by (simp add: lev_matrix_def)











subsection \<open>Validation of airport codes by the flights route\<close>

lemma toUpperCase_upper: "list_all is_upper s \<Longrightarrow> toUpperCase s = s"
  by (induction s) (auto simp add: toUpperCase_def is_upper_def)

lemma code_schema_Some:
  "code_schema val = Some code \<Longrightarrow> code = val \<and> matches_code code"
  by (auto simp add: code_schema_def matches_code_def toUpperCase_upper split: if_splits)

lemma parseSearchParams_arrival:
  assumes "parseSearchParams d today q = Inr validated"
  shows "input_arrival validated = get_or q ''arrival'' [] \<and> matches_code (input_arrival validated)"
proof -
  obtain arr where "code_schema (get_or q ''arrival'' []) = Some arr"
    and "input_arrival validated = arr"
    using assms by (auto simp add: parseSearchParams_def split: option.splits)
  then show ?thesis
    using code_schema_Some by auto
qed

lemma scenario_fields:
  "code_schema ''JFK'' = Some ''JFK''"
  "code_schema ''LHR'' = Some ''LHR''"
  "code_schema ''lhr'' = None"
  "matches_date ''2099-01-01''"
  "count_schema 1 9 ''2'' = Some 2"
  "count_schema 0 8 ''0'' = Some 0"
  "count_schema 1 250 ''50'' = Some 50"
  by code_simp+

lemma scenario_lookups:
  "get_or (scenario_query arr) ''departure'' [] = ''JFK''"
  "get_or (scenario_query arr) ''arrival'' [] = arr"
  "get_or (scenario_query arr) ''departDate'' [] = ''2099-01-01''"
  "get_or (scenario_query arr) ''adults'' ''1'' = ''2''"
  "get_or (scenario_query arr) ''children'' ''0'' = ''0''"
  "get_or (scenario_query arr) ''max'' ''50'' = ''50''"
  by (simp_all add: get_or_def scenario_query_def)

lemma scenario_lowercase_rejected:
  "parseSearchParams d today (scenario_query ''lhr'') = Inl []"
  by (simp add: parseSearchParams_def scenario_lookups scenario_fields)

lemma scenario_uppercase_accepted:
  assumes "getTime d ''2099-01-01'' = Some t" and "today \<le> t"
  shows "parseSearchParams d today (scenario_query ''LHR'') =
          Inr \<lparr>input_departure = ''JFK'', input_arrival = ''LHR'', departDate = ''2099-01-01'',
               returnDate = None, adults = 2, children = 0, max_results = 50\<rparr>"
  using assms
  by (simp add: parseSearchParams_def scenario_lookups scenario_fields date_schema_def)

text \<open>
  C2 (as amended).  For the request GET /flights with departure=JFK, arrival=lhr,
  departDate=2099-01-01, adults=2, validation fails: the uppercase-only pattern is checked
  before the upper-casing transform, so the lowercase arrival code is rejected and the
  response is the 400 validation failure.  With arrival=LHR, and 1 January 2099 not
  before the current day, validation succeeds, and when the search succeeds the 200
  response's meta.searchParams.arrival equals LHR.
\<close>

theorem GET_flights_arrival_code:
  assumes "getTime d ''2099-01-01'' = Some t" and "today \<le> t"
  shows "GET_flights d today stamp client (scenario_query ''lhr'') = ValidationFailed [] \<and>
         (searchFlights \<lparr>params_departure = ''JFK'', params_arrival = ''LHR'',
                         params_departDate = ''2099-01-01'', params_adults = 2,
                         params_children = 0, params_max = 50\<rparr> = Inr flights \<longrightarrow>
          http_status (GET_flights d today stamp (Some searchFlights) (scenario_query ''LHR'')) = 200 \<and>
          map_option input_arrival
            (meta_searchParams (GET_flights d today stamp (Some searchFlights) (scenario_query ''LHR''))) =
            Some ''LHR'')"
proof (intro conjI impI)
  have "parseSearchParams d today (scenario_query ''lhr'') = Inl []"
    by (rule scenario_lowercase_rejected)
  then show "GET_flights d today stamp client (scenario_query ''lhr'') = ValidationFailed []"
    by (simp add: GET_flights_def)
next
  assume found: "searchFlights \<lparr>params_departure = ''JFK'', params_arrival = ''LHR'',
                         params_departDate = ''2099-01-01'', params_adults = 2,
                         params_children = 0, params_max = 50\<rparr> = Inr flights"
  have parsed: "parseSearchParams d today (scenario_query ''LHR'') =
          Inr \<lparr>input_departure = ''JFK'', input_arrival = ''LHR'', departDate = ''2099-01-01'',
               returnDate = None, adults = 2, children = 0, max_results = 50\<rparr>"
    using assms by (rule scenario_uppercase_accepted)
  have result: "GET_flights d today stamp (Some searchFlights) (scenario_query ''LHR'') =
          Success flights (length flights)
            \<lparr>input_departure = ''JFK'', input_arrival = ''LHR'', departDate = ''2099-01-01'',
             returnDate = None, adults = 2, children = 0, max_results = 50\<rparr> stamp"
    using parsed found by (simp add: GET_flights_def buildSearchParams_def)
  show "http_status (GET_flights d today stamp (Some searchFlights) (scenario_query ''LHR'')) = 200"
    by (simp add: result)
  show "map_option input_arrival
            (meta_searchParams (GET_flights d today stamp (Some searchFlights) (scenario_query ''LHR''))) =
            Some ''LHR''"
    by (simp add: result)
qed

text \<open>
  The scenario's request as given, against a client whose search would succeed: the
  response is the 400 validation failure and carries no search parameters.
\<close>

theorem GET_flights_lowercase_arrival_counterexample:
  "GET_flights scenario_dates scenario_today ''2025-11-03T12:00:00.000Z''
      (Some (\<lambda>p. Inr [()])) (scenario_query ''lhr'') = ValidationFailed [] \<and>
   http_status (GET_flights scenario_dates scenario_today ''2025-11-03T12:00:00.000Z''
      (Some (\<lambda>p. Inr [()])) (scenario_query ''lhr'')) = 400 \<and>
   meta_searchParams (GET_flights scenario_dates scenario_today ''2025-11-03T12:00:00.000Z''
      (Some (\<lambda>p. Inr [()])) (scenario_query ''lhr'')) = None"
proof -
  have "parseSearchParams scenario_dates scenario_today (scenario_query ''lhr'') = Inl []"
    by (rule scenario_lowercase_rejected)
  then show ?thesis by (simp add: GET_flights_def)
qed

theorem GET_flights_arrival_code_witness:
  "getTime scenario_dates ''2099-01-01'' = Some 4070908800000 \<and>
   scenario_today \<le> 4070908800000 \<and>
   GET_flights scenario_dates scenario_today ''2025-11-03T12:00:00.000Z''
      (Some (\<lambda>p. Inr [()])) (scenario_query ''lhr'') = ValidationFailed [] \<and>
   http_status (GET_flights scenario_dates scenario_today ''2025-11-03T12:00:00.000Z''
      (Some (\<lambda>p. Inr [()])) (scenario_query ''LHR'')) = 200 \<and>
   map_option input_arrival
     (meta_searchParams (GET_flights scenario_dates scenario_today ''2025-11-03T12:00:00.000Z''
        (Some (\<lambda>p. Inr [()])) (scenario_query ''LHR''))) = Some ''LHR''"
proof -
  have h1: "getTime scenario_dates ''2099-01-01'' = Some 4070908800000"
    by (simp add: scenario_dates_def)
  have h2: "scenario_today \<le> 4070908800000"
    by (simp add: scenario_today_def)
  show ?thesis
    using h1 h2
      GET_flights_arrival_code [OF h1 h2, of "''2025-11-03T12:00:00.000Z''"
        "Some (\<lambda>p. Inr [()])" "\<lambda>p. Inr [()]" "[()]"]
    by simp
qed

end
